theory Spec2Isabelle
  imports Main "HOL-Library.Word"
begin

section \<open>Data model\<close>

text \<open>
  The exporter is one Go file, \<^verbatim>\<open>main.go\<close>. Its own struct is \<^verbatim>\<open>findingsInfo\<close>; the
  request and response types come from the AWS SDK. A Go \<^verbatim>\<open>*string\<close> is a
  \<open>string option\<close>, \<open>None\<close> being the nil pointer. The pointers to the
  response structs themselves (the response, its \<^verbatim>\<open>ImageScanFindings\<close>, each finding and
  each attribute) are taken to be non-nil, as the SDK allocates them when it decodes a
  response; the string pointers that the code dereferences explicitly are not.
\<close>

record findingsInfo =
  Name :: string
  Severity :: string
  PackageVersion :: string
  PackageName :: string
  CVSS2VECTOR :: string
  CVSS2SCORE :: string

record Attribute =
  Key :: "string option"
  Value :: "string option"

record ImageScanFinding =
  FindingName :: "string option"
  FindingSeverity :: "string option"
  Attributes :: "Attribute list"

text \<open>
  One response of \<^verbatim>\<open>DescribeImageScanFindings\<close>: the page
  \<^verbatim>\<open>findings.ImageScanFindings.Findings\<close> and the continuation cursor
  \<^verbatim>\<open>findings.NextToken\<close>.
\<close>

record DescribeImageScanFindingsOutput =
  Findings :: "ImageScanFinding list"
  NextToken :: "string option"

text \<open>
  Go errors. \<^verbatim>\<open>fmt.Errorf("msg: %w", err)\<close> is \<open>Errorf msg err\<close>: it keeps the wrapped
  error, which \<open>Unwrap\<close> gives back.
\<close>

datatype error = AwsError string | NumError string | Errorf string error

fun Unwrap :: "error \<Rightarrow> error option" where
  "Unwrap (Errorf msg err) = Some err"
| "Unwrap (AwsError msg) = None"
| "Unwrap (NumError msg) = None"

text \<open>
  A Go function either returns or panics; a panic ends the process. A function that
  returns \<^verbatim>\<open>(T, error)\<close> returns a pair whose second component is \<open>None\<close> for
  \<^verbatim>\<open>nil\<close>. A nil slice is the empty list: the code only ranges over slices.
\<close>

datatype 'a outcome = Panics string | Returns 'a

definition nil_deref :: string where
  "nil_deref = ''runtime error: invalid memory address or nil pointer dereference''"

text \<open>\<^verbatim>\<open>aws.StringValue\<close>: the string a pointer points to, or the empty string for nil.\<close>

definition StringValue :: "string option \<Rightarrow> string" where
  "StringValue p = (case p of None \<Rightarrow> [] | Some s \<Rightarrow> s)"

section \<open>The snapshot builder inside \<^verbatim>\<open>getECRImageScanFindings\<close>\<close>

text \<open>
  The four variables declared at lines 114 to 119, before the page loop. They are the
  state that the loops thread through. (The local \<^verbatim>\<open>CVSS2VECTOR\<close> and \<^verbatim>\<open>CVSS2SCORE\<close> are
  spelled \<open>cvss2Vector\<close> and \<open>cvss2Score\<close> here, the upper-case names being the
  struct's fields.)
\<close>

record locals =
  packageVersion :: string
  packageName :: string
  cvss2Vector :: string
  cvss2Score :: string

definition zero_locals :: locals where
  "zero_locals = \<lparr>packageVersion = [], packageName = [], cvss2Vector = [], cvss2Score = []\<rparr>"

text \<open>
  Lines 130 to 139: the \<^verbatim>\<open>switch *attr.Key\<close>. The key is dereferenced for every
  attribute, the value only in a matching case.
\<close>

definition deref :: "string option \<Rightarrow> string outcome" where
  "deref p = (case p of None \<Rightarrow> Panics nil_deref | Some s \<Rightarrow> Returns s)"

definition attr_switch :: "locals \<Rightarrow> Attribute \<Rightarrow> locals outcome" where
  "attr_switch st attr =
     (case deref (Key attr) of
        Panics p \<Rightarrow> Panics p
      | Returns k \<Rightarrow>
          if k = ''package_version'' then
            (case deref (Value attr) of Panics p \<Rightarrow> Panics p
             | Returns v \<Rightarrow> Returns (st\<lparr>packageVersion := v\<rparr>))
          else if k = ''package_name'' then
            (case deref (Value attr) of Panics p \<Rightarrow> Panics p
             | Returns v \<Rightarrow> Returns (st\<lparr>packageName := v\<rparr>))
          else if k = ''CVSS2_VECTOR'' then
            (case deref (Value attr) of Panics p \<Rightarrow> Panics p
             | Returns v \<Rightarrow> Returns (st\<lparr>cvss2Vector := v\<rparr>))
          else if k = ''CVSS2_SCORE'' then
            (case deref (Value attr) of Panics p \<Rightarrow> Panics p
             | Returns v \<Rightarrow> Returns (st\<lparr>cvss2Score := v\<rparr>))
          else Returns st)"

text \<open>Line 129: \<^verbatim>\<open>for _, attr := range finding.Attributes\<close>.\<close>

fun attrs_loop :: "locals \<Rightarrow> Attribute list \<Rightarrow> locals outcome" where
  "attrs_loop st [] = Returns st"
| "attrs_loop st (attr # attrs) =
     (case attr_switch st attr of
        Panics p \<Rightarrow> Panics p
      | Returns st' \<Rightarrow> attrs_loop st' attrs)"

text \<open>Lines 141 to 148: the struct literal stored in \<^verbatim>\<open>results[i]\<close>.\<close>

definition mk_findingsInfo :: "locals \<Rightarrow> ImageScanFinding \<Rightarrow> findingsInfo" where
  "mk_findingsInfo st finding =
     \<lparr>Name = StringValue (FindingName finding),
      Severity = StringValue (FindingSeverity finding),
      PackageVersion = packageName st,
      PackageName = packageVersion st,
      CVSS2VECTOR = cvss2Vector st,
      CVSS2SCORE = cvss2Score st\<rparr>"

text \<open>
  Lines 127 to 150: \<^verbatim>\<open>results\<close> has one slot per finding of the page and the loop fills
  slot \<open>i\<close> from finding \<open>i\<close>, so \<^verbatim>\<open>results\<close> is the list of the records in the order of
  the findings. The \<^verbatim>\<open>fmt.Printf\<close> of line 149 writes to standard output, which is not
  part of the model.
\<close>

fun findings_loop ::
  "locals \<Rightarrow> ImageScanFinding list \<Rightarrow> (findingsInfo list \<times> locals) outcome" where
  "findings_loop st [] = Returns ([], st)"
| "findings_loop st (finding # rest) =
     (case attrs_loop st (Attributes finding) of
        Panics p \<Rightarrow> Panics p
      | Returns st' \<Rightarrow>
          (case findings_loop st' rest of
             Panics p \<Rightarrow> Panics p
           | Returns (results, st'') \<Rightarrow> Returns (mk_findingsInfo st' finding # results, st'')))"

section \<open>The paginated fetch\<close>

text \<open>
  The upstream is \<open>svc\<close>: the answer to request number \<open>k\<close> (from 0) of one fetch,
  given the cursor that the request carries. The repository name and the image tag of
  the request are constants of the code. A request comes back with an error or with a
  response.
\<close>

type_synonym upstream = "nat \<Rightarrow> string option \<Rightarrow> error + DescribeImageScanFindingsOutput"

text \<open>
  Lines 121 to 159: the \<^verbatim>\<open>for\<close> loop without a condition. It has no bound, so the model
  is a partial function: \<open>None\<close> is the loop that never returns.
\<close>

partial_function (option) page_loop ::
  "upstream \<Rightarrow> nat \<Rightarrow> string option \<Rightarrow> locals \<Rightarrow> findingsInfo list
     \<Rightarrow> (findingsInfo list \<times> error option) outcome option" where
  "page_loop svc k input st findingsInfos =
     (case svc k input of
        Inl err \<Rightarrow>
          Some (Returns ([], Some (Errorf ''failed to describe image scan findings'' err)))
      | Inr findings \<Rightarrow>
          (case findings_loop st (Findings findings) of
             Panics p \<Rightarrow> Some (Panics p)
           | Returns (results, st') \<Rightarrow>
               (case NextToken findings of
                  None \<Rightarrow> Some (Returns (findingsInfos @ results, None))
                | Some token \<Rightarrow>
                    page_loop svc (Suc k) (Some token) st' (findingsInfos @ results))))"

declare page_loop.simps [code]

definition getECRImageScanFindings ::
  "upstream \<Rightarrow> (findingsInfo list \<times> error option) outcome option" where
  "getECRImageScanFindings svc = page_loop svc 0 None zero_locals []"

section \<open>The metrics registry and \<^verbatim>\<open>snapshot\<close>\<close>

text \<open>
  \<^verbatim>\<open>prometheus.Labels\<close> is a map from label name to label value; the literal of lines 72
  to 79 always has the same six keys, so it is the list of its entries in the order of
  the source. The gauge vector \<^verbatim>\<open>findings\<close> holds one gauge per label set:
  \<^verbatim>\<open>With(labels)\<close> gives the gauge of that label set, creating it on first use, and
  \<^verbatim>\<open>Set\<close> stores its value; \<^verbatim>\<open>Reset\<close> deletes every gauge. The registry is the list of
  the samples, in the order in which their gauges were created. The gauge value is the
  constant 1 of the code. \<^verbatim>\<open>With\<close> panics for a label set that the vector refuses; the
  literal always has the six names of the vector, and the label values are taken to be
  ones that the vector accepts.
\<close>

type_synonym Labels = "(string \<times> string) list"

type_synonym registry = "(Labels \<times> int) list"

definition Reset :: "registry \<Rightarrow> registry" where
  "Reset reg = []"

fun With_Set :: "Labels \<Rightarrow> int \<Rightarrow> registry \<Rightarrow> registry" where
  "With_Set labels v [] = [(labels, v)]"
| "With_Set labels v ((l, w) # reg) =
     (if l = labels then (l, v) # reg else (l, w) # With_Set labels v reg)"

text \<open>Lines 72 to 79.\<close>

definition snapshot_labels :: "findingsInfo \<Rightarrow> Labels" where
  "snapshot_labels fi =
     [(''name'', Name fi),
      (''severity'', Severity fi),
      (''package_version'', PackageName fi),
      (''package_name'', PackageName fi),
      (''CVSS2_VECTOR'', CVSS2VECTOR fi),
      (''CVSS2_SCORE'', CVSS2SCORE fi)]"

text \<open>Lines 71 to 81: \<^verbatim>\<open>for _, findingsInfo := range findingsInfos\<close>.\<close>

fun publish_loop :: "registry \<Rightarrow> findingsInfo list \<Rightarrow> registry" where
  "publish_loop reg [] = reg"
| "publish_loop reg (fi # rest) = publish_loop (With_Set (snapshot_labels fi) 1 reg) rest"

text \<open>
  Lines 63 to 84. \<^verbatim>\<open>snapshot\<close> works on the global registry: the model takes the
  registry before the call and returns the registry after it with the returned error.
\<close>

definition snapshot :: "upstream \<Rightarrow> registry \<Rightarrow> (registry \<times> error option) outcome option" where
  "snapshot svc reg =
     (let reg1 = Reset reg in
      case getECRImageScanFindings svc of
        None \<Rightarrow> None
      | Some (Panics p) \<Rightarrow> Some (Panics p)
      | Some (Returns (findingsInfos, Some err)) \<Rightarrow>
          Some (Returns (reg1, Some (Errorf ''failed to read ECR Image Scan Findings infos'' err)))
      | Some (Returns (findingsInfos, None)) \<Rightarrow>
          Some (Returns (publish_loop reg1 findingsInfos, None)))"

section \<open>Configuration and startup\<close>

text \<open>
  Go's \<^verbatim>\<open>int\<close> is taken to be 64 bits wide, as \<^verbatim>\<open>time.Duration\<close> (an \<^verbatim>\<open>int64\<close>) is. The
  environment maps a variable to its value; \<^verbatim>\<open>os.Getenv\<close> gives the empty string for a
  variable that is not set.
\<close>

type_synonym int64 = "64 word"

type_synonym environ = "string \<Rightarrow> string option"

definition Getenv :: "environ \<Rightarrow> string \<Rightarrow> string" where
  "Getenv env k = (case env k of None \<Rightarrow> [] | Some v \<Rightarrow> v)"

text \<open>
  Lines 86 to 99. \<^verbatim>\<open>strconv.Atoi\<close> belongs to Go's library and is a parameter here: it
  returns a number and an error, the error being nil when the string was parsed.
\<close>

definition getInterval :: "(string \<Rightarrow> int64 \<times> error option) \<Rightarrow> environ \<Rightarrow> int64 \<times> error option" where
  "getInterval Atoi env =
     (let githubAPIInterval = Getenv env ''AWS_API_INTERVAL'' in
      if length githubAPIInterval = 0 then (300, None)
      else
        (case Atoi githubAPIInterval of
           (integerGithubAPIInterval, Some err) \<Rightarrow>
             (0, Some (Errorf ''failed to read Datadog Config'' err))
         | (integerGithubAPIInterval, None) \<Rightarrow> (integerGithubAPIInterval, None)))"

text \<open>
  \<^verbatim>\<open>time.Second\<close> is 1000000000 nanoseconds, and the product of line 50 wraps in 64 bits.
  \<^verbatim>\<open>time.NewTicker\<close> panics when its duration is not positive.
\<close>

definition Second :: int64 where
  "Second = 1000000000"

definition NewTicker :: "int64 \<Rightarrow> int64 outcome" where
  "NewTicker d =
     (if sint d \<le> 0 then Panics ''non-positive interval for NewTicker'' else Returns d)"

text \<open>
  Lines 39 to 50 of \<^verbatim>\<open>main\<close>, up to the construction of the ticker: \<^verbatim>\<open>log.Fatal\<close> ends
  the process with the error, otherwise the refresh loop starts with its ticker. A panic
  of the ticker's construction ends the process too.
\<close>

datatype startup = Fatal error | Started "int64 outcome"

definition main_startup :: "(string \<Rightarrow> int64 \<times> error option) \<Rightarrow> environ \<Rightarrow> startup" where
  "main_startup Atoi env =
     (case getInterval Atoi env of
        (interval, Some err) \<Rightarrow> Fatal err
      | (interval, None) \<Rightarrow> Started (NewTicker (interval * Second)))"

text \<open>
  A model of \<^verbatim>\<open>strconv.Atoi\<close> for concrete runs: an optional sign, then one or more
  decimal digits, the value within 64 bits; otherwise a syntax or a range error.
\<close>

definition digit_of :: "char \<Rightarrow> int option" where
  "digit_of c =
     (let n = (of_char c :: int) in if 48 \<le> n \<and> n \<le> 57 then Some (n - 48) else None)"

fun parse_digits :: "int \<Rightarrow> string \<Rightarrow> int option" where
  "parse_digits acc [] = Some acc"
| "parse_digits acc (c # cs) =
     (case digit_of c of None \<Rightarrow> None | Some d \<Rightarrow> parse_digits (acc * 10 + d) cs)"

definition strconv_Atoi :: "string \<Rightarrow> int64 \<times> error option" where
  "strconv_Atoi s =
     (let neg = (s \<noteq> [] \<and> hd s = CHR ''-'');
          ds = (if s \<noteq> [] \<and> (hd s = CHR ''-'' \<or> hd s = CHR ''+'') then tl s else s)
      in if ds = [] then (0, Some (NumError ''invalid syntax''))
         else
           (case parse_digits 0 ds of
              None \<Rightarrow> (0, Some (NumError ''invalid syntax''))
            | Some n \<Rightarrow>
                if neg then
                  (if n > 2 ^ 63 then (word_of_int (- (2 ^ 63)), Some (NumError ''value out of range''))
                   else (word_of_int (- n), None))
                else
                  (if n \<ge> 2 ^ 63 then (word_of_int (2 ^ 63 - 1), Some (NumError ''value out of range''))
                   else (word_of_int n, None))))"

section \<open>Vocabulary for the claims\<close>

text \<open>
  \<open>served svc k input pages\<close>: from request \<open>k\<close>, which carries the cursor \<open>input\<close>,
  the upstream answers with the responses \<open>pages\<close> in this order, every request after
  the first carrying the cursor of the response before it. \<open>cursor_after\<close> is the cursor
  that the request after these responses carries, and \<open>all_findings\<close> is the
  concatenation of the pages' findings.
\<close>

fun served ::
  "upstream \<Rightarrow> nat \<Rightarrow> string option \<Rightarrow> DescribeImageScanFindingsOutput list \<Rightarrow> bool" where
  "served svc k input [] = True"
| "served svc k input (page # pages) =
     (svc k input = Inr page \<and> served svc (Suc k) (NextToken page) pages)"

fun cursor_after ::
  "string option \<Rightarrow> DescribeImageScanFindingsOutput list \<Rightarrow> string option" where
  "cursor_after input [] = input"
| "cursor_after input (page # pages) = cursor_after (NextToken page) pages"

definition all_findings :: "DescribeImageScanFindingsOutput list \<Rightarrow> ImageScanFinding list" where
  "all_findings pages = concat (map Findings pages)"

text \<open>
  \<open>stops_with svc k input st acc y\<close>: the iteration of the page loop that sends request
  \<open>k\<close> is the last one, and the fetch ends with \<open>y\<close>. The three ways out of the loop
  are the error return of line 124, a panic, and the return of line 156.
\<close>

definition stops_with ::
  "upstream \<Rightarrow> nat \<Rightarrow> string option \<Rightarrow> locals \<Rightarrow> findingsInfo list
     \<Rightarrow> (findingsInfo list \<times> error option) outcome \<Rightarrow> bool" where
  "stops_with svc k input st acc y =
     (case svc k input of
        Inl err \<Rightarrow>
          y = Returns ([], Some (Errorf ''failed to describe image scan findings'' err))
      | Inr page \<Rightarrow>
          (case findings_loop st (Findings page) of
             Panics p \<Rightarrow> y = Panics p
           | Returns (r, st') \<Rightarrow> NextToken page = None \<and> y = Returns (acc @ r, None)))"

section \<open>Concrete inputs\<close>

text \<open>
  Two pages: the first with one finding that has a package name and a package version,
  and the cursor \<open>tok1\<close>; the second, asked for with that cursor, with one finding
  without attributes and no cursor.
\<close>

definition finding_cve1 :: ImageScanFinding where
  "finding_cve1 =
     \<lparr>FindingName = Some ''CVE-1'', FindingSeverity = Some ''HIGH'',
      Attributes =
        [\<lparr>Key = Some ''package_name'', Value = Some ''libfoo''\<rparr>,
         \<lparr>Key = Some ''package_version'', Value = Some ''1.2''\<rparr>]\<rparr>"

definition finding_cve2 :: ImageScanFinding where
  "finding_cve2 =
     \<lparr>FindingName = Some ''CVE-2'', FindingSeverity = Some ''LOW'', Attributes = []\<rparr>"

definition page_one :: DescribeImageScanFindingsOutput where
  "page_one = \<lparr>Findings = [finding_cve1], NextToken = Some ''tok1''\<rparr>"

definition page_two :: DescribeImageScanFindingsOutput where
  "page_two = \<lparr>Findings = [finding_cve2], NextToken = None\<rparr>"

definition two_pages :: upstream where
  "two_pages k input =
     (if k = 0 \<and> input = None then Inr page_one
      else if k = 1 \<and> input = Some ''tok1'' then Inr page_two
      else Inl (AwsError ''unexpected request''))"

text \<open>The same first page, and a second request that fails.\<close>

definition second_request_fails :: upstream where
  "second_request_fails k input =
     (if k = 0 \<and> input = None then Inr page_one
      else Inl (AwsError ''ThrottlingException''))"


text \<open>An upstream that refuses every request.\<close>

definition no_access :: upstream where
  "no_access k input = Inl (AwsError ''AccessDeniedException'')"

text \<open>One page with the first finding alone, and one page that lists it twice.\<close>

definition single_finding :: upstream where
  "single_finding k input = Inr \<lparr>Findings = [finding_cve1], NextToken = None\<rparr>"


text \<open>A registry that holds one sample of an earlier cycle.\<close>

definition old_registry :: registry where
  "old_registry =
     [([(''name'', ''CVE-0''), (''severity'', ''MEDIUM''), (''package_version'', ''0.9''),
        (''package_name'', ''0.9''), (''CVSS2_VECTOR'', []), (''CVSS2_SCORE'', [])], 1)]"

text \<open>Environments: the interval variable set to a value, and no variable set.\<close>

definition interval_env :: "string \<Rightarrow> environ" where
  "interval_env v k = (if k = ''AWS_API_INTERVAL'' then Some v else None)"

definition no_env :: environ where
  "no_env k = None"

section \<open>The loops of the builder\<close>

lemma attrs_loop_append:
  "attrs_loop st (xs @ ys) =
     (case attrs_loop st xs of Panics p \<Rightarrow> Panics p | Returns st1 \<Rightarrow> attrs_loop st1 ys)"
  by (induction xs arbitrary: st) (auto split: outcome.splits)

lemma findings_loop_append:
  "findings_loop st (xs @ ys) =
     (case findings_loop st xs of
        Panics p \<Rightarrow> Panics p
      | Returns (r1, st1) \<Rightarrow>
          (case findings_loop st1 ys of
             Panics p \<Rightarrow> Panics p
           | Returns (r2, st2) \<Rightarrow> Returns (r1 @ r2, st2)))"
  by (induction xs arbitrary: st) (auto split: outcome.splits)

lemma findings_loop_length:
  "findings_loop st fs = Returns (rs, st') \<Longrightarrow> length rs = length fs"
  by (induction fs arbitrary: st rs) (auto split: outcome.splits)

text \<open>An attribute with another key leaves a variable as it was.\<close>

lemma attr_switch_other_packageVersion:
  "attr_switch st a = Returns st' \<Longrightarrow> Key a \<noteq> Some ''package_version'' \<Longrightarrow>
     packageVersion st' = packageVersion st"
  by (auto simp: attr_switch_def deref_def split: option.splits if_splits)

lemma attr_switch_other_packageName:
  "attr_switch st a = Returns st' \<Longrightarrow> Key a \<noteq> Some ''package_name'' \<Longrightarrow>
     packageName st' = packageName st"
  by (auto simp: attr_switch_def deref_def split: option.splits if_splits)

lemma attrs_loop_other_packageVersion:
  "attrs_loop st as = Returns st' \<Longrightarrow> \<forall>b \<in> set as. Key b \<noteq> Some ''package_version'' \<Longrightarrow>
     packageVersion st' = packageVersion st"
proof (induction as arbitrary: st)
  case Nil
  then show ?case by simp
next
  case (Cons a as)
  from Cons.prems(1) obtain st1 where s1: "attr_switch st a = Returns st1"
    and s2: "attrs_loop st1 as = Returns st'"
    by (auto split: outcome.splits)
  from Cons.IH [OF s2] Cons.prems(2) have "packageVersion st' = packageVersion st1" by simp
  with attr_switch_other_packageVersion [OF s1] Cons.prems(2) show ?case by simp
qed

lemma attrs_loop_other_packageName:
  "attrs_loop st as = Returns st' \<Longrightarrow> \<forall>b \<in> set as. Key b \<noteq> Some ''package_name'' \<Longrightarrow>
     packageName st' = packageName st"
proof (induction as arbitrary: st)
  case Nil
  then show ?case by simp
next
  case (Cons a as)
  from Cons.prems(1) obtain st1 where s1: "attr_switch st a = Returns st1"
    and s2: "attrs_loop st1 as = Returns st'"
    by (auto split: outcome.splits)
  from Cons.IH [OF s2] Cons.prems(2) have "packageName st' = packageName st1" by simp
  with attr_switch_other_packageName [OF s1] Cons.prems(2) show ?case by simp
qed

text \<open>The last attribute with a key decides the variable of that key.\<close>

lemma attrs_loop_last_value:
  assumes "attrs_loop st (pre @ a # post) = Returns st'"
    and "Key a = Some k" and "Value a = Some v"
    and "\<forall>b \<in> set post. Key b \<noteq> Some k"
  shows "(k = ''package_version'' \<longrightarrow> packageVersion st' = v) \<and>
         (k = ''package_name'' \<longrightarrow> packageName st' = v)"
proof -
  from assms(1) obtain st1 st2 where
    "attrs_loop st pre = Returns st1" and s2: "attr_switch st1 a = Returns st2"
    and s3: "attrs_loop st2 post = Returns st'"
    by (auto simp: attrs_loop_append split: outcome.splits)
  from s2 assms(2,3) have
    "k = ''package_version'' \<longrightarrow> packageVersion st2 = v"
    "k = ''package_name'' \<longrightarrow> packageName st2 = v"
    by (auto simp: attr_switch_def deref_def)
  with attrs_loop_other_packageVersion [OF s3] attrs_loop_other_packageName [OF s3] assms(4)
  show ?thesis by auto
qed

text \<open>Record \<open>i\<close> is built from finding \<open>i\<close>, after the loop over its attributes.\<close>

lemma findings_loop_nth:
  assumes "findings_loop st fs = Returns (results, st')" and "i < length fs"
  shows "\<exists>st0 st1. attrs_loop st0 (Attributes (fs ! i)) = Returns st1 \<and>
           results ! i = mk_findingsInfo st1 (fs ! i)"
  using assms
proof (induction fs arbitrary: st results i)
  case Nil
  then show ?case by simp
next
  case (Cons f fs)
  from Cons.prems(1) obtain st1 rs where
    a: "attrs_loop st (Attributes f) = Returns st1"
    and b: "findings_loop st1 fs = Returns (rs, st')"
    and c: "results = mk_findingsInfo st1 f # rs"
    by (auto split: outcome.splits)
  show ?case
  proof (cases i)
    case 0
    with a c show ?thesis by auto
  next
    case (Suc j)
    with Cons.prems(2) have "j < length fs" by simp
    from Cons.IH [OF b this] Suc c show ?thesis by simp
  qed
qed


section \<open>The page loop\<close>


text \<open>
  Pages that carry a cursor are passed over: the loop is then at the request after
  them, with their records accumulated.
\<close>

lemma page_loop_prefix:
  assumes "served svc k input pages"
    and "\<forall>page \<in> set pages. NextToken page \<noteq> None"
    and "findings_loop st (all_findings pages) = Returns (rs, st')"
  shows "page_loop svc k input st acc =
         page_loop svc (k + length pages) (cursor_after input pages) st' (acc @ rs)"
  using assms
proof (induction pages arbitrary: k input st acc rs)
  case Nil
  then show ?case by (simp add: all_findings_def)
next
  case (Cons page pages)
  from Cons.prems(1) have svc: "svc k input = Inr page"
    and rest: "served svc (Suc k) (NextToken page) pages" by simp_all
  from Cons.prems(2) obtain token where tok: "NextToken page = Some token"
    and more: "\<forall>page \<in> set pages. NextToken page \<noteq> None" by auto
  from Cons.prems(3) obtain r1 st1 r2 where
    p1: "findings_loop st (Findings page) = Returns (r1, st1)"
    and p2: "findings_loop st1 (all_findings pages) = Returns (r2, st')"
    and rs: "rs = r1 @ r2"
    by (auto simp: all_findings_def findings_loop_append split: outcome.splits)
  have "page_loop svc k input st acc = page_loop svc (Suc k) (Some token) st1 (acc @ r1)"
    by (subst page_loop.simps) (simp add: svc p1 tok)
  also have "\<dots> = page_loop svc (Suc k + length pages) (cursor_after (Some token) pages) st'
      ((acc @ r1) @ r2)"
    using Cons.IH [OF _ more p2] rest tok by simp
  finally show ?case by (simp add: rs tok)
qed

lemma page_loop_stops_with:
  "stops_with svc k input st acc y \<Longrightarrow> page_loop svc k input st acc = Some y"
  by (subst page_loop.simps) (auto simp: stops_with_def split: sum.splits outcome.splits)

text \<open>
  A loop that returns has passed over finitely many pages with a cursor and stopped at
  the request after them. The proof is by the induction rule of the partial function.
\<close>

lemma page_loop_stops:
  assumes "page_loop svc k input st acc = Some y"
  shows "\<exists>pages rs st'. served svc k input pages \<and> (\<forall>page \<in> set pages. NextToken page \<noteq> None)
           \<and> findings_loop st (all_findings pages) = Returns (rs, st')
           \<and> stops_with svc (k + length pages) (cursor_after input pages) st' (acc @ rs) y"
proof (rule page_loop.raw_induct [where P = "\<lambda>svc k input st acc y.
    \<exists>pages rs st'. served svc k input pages \<and> (\<forall>page \<in> set pages. NextToken page \<noteq> None)
           \<and> findings_loop st (all_findings pages) = Returns (rs, st')
           \<and> stops_with svc (k + length pages) (cursor_after input pages) st' (acc @ rs) y",
      OF _ assms], goal_cases)
  case (1 approx svc k input st acc y)
  show ?case
  proof (cases "svc k input")
    case (Inl err)
    with 1(2) have "stops_with svc k input st acc y" by (auto simp: stops_with_def)
    then show ?thesis
      by (intro exI [of _ "[]"] exI [of _ st]) (simp add: all_findings_def)
  next
    case (Inr page)
    show ?thesis
    proof (cases "findings_loop st (Findings page)")
      case (Panics p)
      with 1(2) Inr have "stops_with svc k input st acc y" by (auto simp: stops_with_def)
      then show ?thesis
        by (intro exI [of _ "[]"] exI [of _ st]) (simp add: all_findings_def)
    next
      case (Returns res)
      obtain r1 st1 where res: "res = (r1, st1)" by (cases res)
      show ?thesis
      proof (cases "NextToken page")
        case None
        with 1(2) Inr Returns res have "stops_with svc k input st acc y"
          by (auto simp: stops_with_def)
        then show ?thesis
          by (intro exI [of _ "[]"] exI [of _ st]) (simp add: all_findings_def)
      next
        case (Some token)
        with 1(2) Inr Returns res
        have "approx svc (Suc k) (Some token) st1 (acc @ r1) = Some y" by simp
        from 1(1) [OF this] obtain pages rs st' where
          a: "served svc (Suc k) (Some token) pages"
          and b: "\<forall>page \<in> set pages. NextToken page \<noteq> None"
          and c: "findings_loop st1 (all_findings pages) = Returns (rs, st')"
          and d: "stops_with svc (Suc k + length pages) (cursor_after (Some token) pages) st'
                    ((acc @ r1) @ rs) y"
          by blast
        have "served svc k input (page # pages)" using a Inr Some by simp
        moreover have "\<forall>q \<in> set (page # pages). NextToken q \<noteq> None" using b Some by simp
        moreover have "findings_loop st (all_findings (page # pages)) = Returns (r1 @ rs, st')"
          using c Returns res by (simp add: all_findings_def findings_loop_append)
        moreover have "stops_with svc (k + length (page # pages))
            (cursor_after input (page # pages)) st' (acc @ r1 @ rs) y"
          using d Some by simp
        ultimately show ?thesis by blast
      qed
    qed
  qed
qed

section \<open>The fetch as a whole\<close>

lemma fetch_continues:
  assumes "served svc 0 None pages"
    and "\<forall>page \<in> set pages. NextToken page \<noteq> None"
    and "findings_loop zero_locals (all_findings pages) = Returns (rs, st)"
  shows "getECRImageScanFindings svc =
         page_loop svc (length pages) (cursor_after None pages) st rs"
  using page_loop_prefix [OF assms, of "[]"] by (simp add: getECRImageScanFindings_def)


lemma fetch_error:
  assumes "served svc 0 None pages"
    and "\<forall>page \<in> set pages. NextToken page \<noteq> None"
    and "findings_loop zero_locals (all_findings pages) = Returns (rs, st)"
    and "svc (length pages) (cursor_after None pages) = Inl err"
  shows "getECRImageScanFindings svc =
         Some (Returns ([], Some (Errorf ''failed to describe image scan findings'' err)))"
proof -
  have "stops_with svc (length pages) (cursor_after None pages) st rs
          (Returns ([], Some (Errorf ''failed to describe image scan findings'' err)))"
    by (simp add: stops_with_def assms(4))
  then show ?thesis
    using fetch_continues [OF assms(1-3)] by (simp add: page_loop_stops_with)
qed

lemma fetch_error_only_from_request:
  assumes "getECRImageScanFindings svc = Some (Returns (infos, Some e))"
  shows "infos = [] \<and>
         (\<exists>pages rs st err.
            served svc 0 None pages \<and> (\<forall>page \<in> set pages. NextToken page \<noteq> None) \<and>
            findings_loop zero_locals (all_findings pages) = Returns (rs, st) \<and>
            svc (length pages) (cursor_after None pages) = Inl err \<and>
            e = Errorf ''failed to describe image scan findings'' err)"
proof -
  from assms have "page_loop svc 0 None zero_locals [] = Some (Returns (infos, Some e))"
    by (simp add: getECRImageScanFindings_def)
  from page_loop_stops [OF this] obtain pages rs st' where
    a: "served svc 0 None pages"
    and b: "\<forall>page \<in> set pages. NextToken page \<noteq> None"
    and c: "findings_loop zero_locals (all_findings pages) = Returns (rs, st')"
    and d: "stops_with svc (length pages) (cursor_after None pages) st' rs
              (Returns (infos, Some e))"
    by auto
  show ?thesis
  proof (cases "svc (length pages) (cursor_after None pages)")
    case (Inl err)
    with d have "infos = []" "e = Errorf ''failed to describe image scan findings'' err"
      by (simp_all add: stops_with_def)
    with a b c Inl show ?thesis by blast
  next
    case (Inr page)
    with d have False
      by (cases "findings_loop st' (Findings page)") (auto simp: stops_with_def)
    then show ?thesis ..
  qed
qed


section \<open>The registry\<close>










section \<open>The ticker's duration\<close>

lemma duration_in_range:
  fixes n :: int64
  assumes "- 9223372036 \<le> sint n" and "sint n \<le> 9223372036"
  shows "sint (n * Second) = sint n * 1000000000"
proof -
  have "sint (n * Second) = signed_take_bit 63 (sint n * sint Second)"
    by (simp add: sint_word_ariths)
  also have "sint Second = 1000000000" by (simp add: Second_def)
  also have "signed_take_bit 63 (sint n * 1000000000) = sint n * 1000000000"
    using assms by (intro signed_take_bit_int_eq_self) simp_all
  finally show ?thesis .
qed

section \<open>Claims about the builder\<close>

text \<open>
  C1. The claim: the four working fields are reset to the empty string before each
  finding, so a finding without one of the four keys gets an empty field and never a
  value of an earlier finding. The code declares the four variables once, before the
  page loop, and never resets them. On the two pages above, the second finding has no
  attributes, and its record carries the package name and the package version of the
  first finding, which came on another page.
\<close>

theorem carried_over_attribute_values:
  "getECRImageScanFindings two_pages =
     Some (Returns
       ([\<lparr>Name = ''CVE-1'', Severity = ''HIGH'', PackageVersion = ''libfoo'',
          PackageName = ''1.2'', CVSS2VECTOR = [], CVSS2SCORE = []\<rparr>,
         \<lparr>Name = ''CVE-2'', Severity = ''LOW'', PackageVersion = ''libfoo'',
          PackageName = ''1.2'', CVSS2VECTOR = [], CVSS2SCORE = []\<rparr>],
        None))"
  by (simp add: getECRImageScanFindings_def page_loop.simps two_pages_def page_one_def
      page_two_def finding_cve1_def finding_cve2_def zero_locals_def attr_switch_def
      deref_def mk_findingsInfo_def StringValue_def)

text \<open>
  C7. For every finding of a page that the builder gets through: when the finding
  carries the attribute \<open>package_version\<close>, its record's \<open>PackageName\<close> is that
  attribute's value, and when it carries the attribute \<open>package_name\<close>, its record's
  \<open>PackageVersion\<close> is that attribute's value. The attribute \<open>a\<close> is the last one of
  its key in the finding's list; where a key occurs once, that is the attribute of
  that key.
\<close>

theorem builder_field_swap:
  assumes "findings_loop st fs = Returns (results, st')"
    and "i < length fs"
    and "Attributes (fs ! i) = pre @ a # post"
    and "Key a = Some k" and "Value a = Some v"
    and "\<forall>b \<in> set post. Key b \<noteq> Some k"
  shows "length results = length fs \<and>
         (k = ''package_version'' \<longrightarrow> PackageName (results ! i) = v) \<and>
         (k = ''package_name'' \<longrightarrow> PackageVersion (results ! i) = v)"
proof -
  from findings_loop_nth [OF assms(1,2)] obtain st0 st1 where
    a: "attrs_loop st0 (pre @ a # post) = Returns st1"
    and b: "results ! i = mk_findingsInfo st1 (fs ! i)"
    by (auto simp: assms(3))
  from attrs_loop_last_value [OF a assms(4,5,6)] b findings_loop_length [OF assms(1)]
  show ?thesis by (simp add: mk_findingsInfo_def)
qed

theorem builder_field_swap_witness:
  "findings_loop zero_locals [finding_cve1] =
     Returns
       ([\<lparr>Name = ''CVE-1'', Severity = ''HIGH'', PackageVersion = ''libfoo'',
          PackageName = ''1.2'', CVSS2VECTOR = [], CVSS2SCORE = []\<rparr>],
        \<lparr>packageVersion = ''1.2'', packageName = ''libfoo'', cvss2Vector = [],
          cvss2Score = []\<rparr>) \<and>
   PackageName
     (\<lparr>Name = ''CVE-1'', Severity = ''HIGH'', PackageVersion = ''libfoo'',
       PackageName = ''1.2'', CVSS2VECTOR = [], CVSS2SCORE = []\<rparr>) = ''1.2'' \<and>
   PackageVersion
     (\<lparr>Name = ''CVE-1'', Severity = ''HIGH'', PackageVersion = ''libfoo'',
       PackageName = ''1.2'', CVSS2VECTOR = [], CVSS2SCORE = []\<rparr>) = ''libfoo''"
proof -
  let ?name = "\<lparr>Key = Some ''package_name'', Value = Some ''libfoo''\<rparr>"
  let ?version = "\<lparr>Key = Some ''package_version'', Value = Some ''1.2''\<rparr>"
  have run: "findings_loop zero_locals [finding_cve1] =
     Returns
       ([\<lparr>Name = ''CVE-1'', Severity = ''HIGH'', PackageVersion = ''libfoo'',
          PackageName = ''1.2'', CVSS2VECTOR = [], CVSS2SCORE = []\<rparr>],
        \<lparr>packageVersion = ''1.2'', packageName = ''libfoo'', cvss2Vector = [],
          cvss2Score = []\<rparr>)"
    by (simp add: finding_cve1_def zero_locals_def attr_switch_def deref_def
        mk_findingsInfo_def StringValue_def)
  have version: "Attributes ([finding_cve1] ! 0) = [?name] @ ?version # []"
    by (simp add: finding_cve1_def)
  have name: "Attributes ([finding_cve1] ! 0) = [] @ ?name # [?version]"
    by (simp add: finding_cve1_def)
  from builder_field_swap [OF run _ version, of "''package_version''" "''1.2''"]
    builder_field_swap [OF run _ name, of "''package_name''" "''libfoo''"] run
  show ?thesis by simp
qed

section \<open>Claims about the fetch\<close>



text \<open>
  C6. When a request comes back with an error, whatever pages came before it, the
  fetch returns at once: its error wraps the error of the request, and its list of
  records is empty, so the records of the earlier pages are not returned. And an error
  that the fetch returns always comes from a request in this way.
\<close>

theorem request_error_aborts_fetch:
  "(served svc 0 None pages \<and> (\<forall>page \<in> set pages. NextToken page \<noteq> None) \<and>
    findings_loop zero_locals (all_findings pages) = Returns (rs, st) \<and>
    svc (length pages) (cursor_after None pages) = Inl err \<longrightarrow>
      getECRImageScanFindings svc =
        Some (Returns ([], Some (Errorf ''failed to describe image scan findings'' err))) \<and>
      Unwrap (Errorf ''failed to describe image scan findings'' err) = Some err) \<and>
   (getECRImageScanFindings svc = Some (Returns (infos, Some e)) \<longrightarrow>
      infos = [] \<and>
      (\<exists>pages rs st err.
         served svc 0 None pages \<and> (\<forall>page \<in> set pages. NextToken page \<noteq> None) \<and>
         findings_loop zero_locals (all_findings pages) = Returns (rs, st) \<and>
         svc (length pages) (cursor_after None pages) = Inl err \<and>
         e = Errorf ''failed to describe image scan findings'' err))"
  using fetch_error [of svc pages rs st err] fetch_error_only_from_request [of svc infos e]
  by simp

theorem request_error_aborts_fetch_witness:
  "served second_request_fails 0 None [page_one] \<and>
   NextToken page_one = Some ''tok1'' \<and>
   findings_loop zero_locals (all_findings [page_one]) =
     Returns
       ([\<lparr>Name = ''CVE-1'', Severity = ''HIGH'', PackageVersion = ''libfoo'',
          PackageName = ''1.2'', CVSS2VECTOR = [], CVSS2SCORE = []\<rparr>],
        \<lparr>packageVersion = ''1.2'', packageName = ''libfoo'', cvss2Vector = [],
          cvss2Score = []\<rparr>) \<and>
   second_request_fails 1 (Some ''tok1'') = Inl (AwsError ''ThrottlingException'') \<and>
   getECRImageScanFindings second_request_fails =
     Some (Returns ([], Some (Errorf ''failed to describe image scan findings''
       (AwsError ''ThrottlingException''))))"
proof -
  have s: "served second_request_fails 0 None [page_one]"
    by (simp add: second_request_fails_def)
  have t: "NextToken page_one = Some ''tok1''"
    by (simp add: page_one_def)
  have b: "findings_loop zero_locals (all_findings [page_one]) =
     Returns
       ([\<lparr>Name = ''CVE-1'', Severity = ''HIGH'', PackageVersion = ''libfoo'',
          PackageName = ''1.2'', CVSS2VECTOR = [], CVSS2SCORE = []\<rparr>],
        \<lparr>packageVersion = ''1.2'', packageName = ''libfoo'', cvss2Vector = [],
          cvss2Score = []\<rparr>)"
    by (simp add: all_findings_def page_one_def finding_cve1_def
        zero_locals_def attr_switch_def deref_def mk_findingsInfo_def StringValue_def)
  have e: "second_request_fails (length [page_one]) (cursor_after None [page_one])
      = Inl (AwsError ''ThrottlingException'')"
    by (simp add: second_request_fails_def page_one_def)
  have e': "second_request_fails 1 (Some ''tok1'') = Inl (AwsError ''ThrottlingException'')"
    by (simp add: second_request_fails_def)
  have "getECRImageScanFindings second_request_fails =
     Some (Returns ([], Some (Errorf ''failed to describe image scan findings''
       (AwsError ''ThrottlingException''))))"
    using request_error_aborts_fetch [of second_request_fails "[page_one]" _ _
        "AwsError ''ThrottlingException''" "[]"] s t b e
    by simp
  with s t b e' show ?thesis by simp
qed

section \<open>Claims about the refresh\<close>

text \<open>
  C2. The claim: the label \<open>package_version\<close> takes the record's \<open>PackageName\<close> and the
  label \<open>package_name\<close> takes the record's \<open>PackageVersion\<close>, two distinct fields. The
  code gives both labels the field \<open>PackageName\<close> and never reads \<open>PackageVersion\<close>. For
  the finding of package \<open>libfoo\<close> in version \<open>1.2\<close>, the record has \<open>PackageVersion\<close>
  \<open>libfoo\<close>, and the label \<open>package_name\<close> of its sample is \<open>1.2\<close>.
\<close>

theorem package_name_label_takes_PackageName:
  "getECRImageScanFindings single_finding =
     Some (Returns
       ([\<lparr>Name = ''CVE-1'', Severity = ''HIGH'', PackageVersion = ''libfoo'',
          PackageName = ''1.2'', CVSS2VECTOR = [], CVSS2SCORE = []\<rparr>],
        None)) \<and>
   snapshot single_finding [] =
     Some (Returns
       ([([(''name'', ''CVE-1''), (''severity'', ''HIGH''), (''package_version'', ''1.2''),
           (''package_name'', ''1.2''), (''CVSS2_VECTOR'', []), (''CVSS2_SCORE'', [])], 1)],
        None))"
  by (simp add: snapshot_def Reset_def snapshot_labels_def getECRImageScanFindings_def
      page_loop.simps single_finding_def finding_cve1_def zero_locals_def attr_switch_def
      deref_def mk_findingsInfo_def StringValue_def)

text \<open>
  C3. The claim: a failed fetch leaves the registry as it was, the clear coming after
  the fetch. In the code \<^verbatim>\<open>findings.Reset()\<close> is the first statement of \<^verbatim>\<open>snapshot\<close>,
  before the fetch. With an upstream that refuses the request, a registry that held a
  sample is empty after the call.
\<close>

theorem failed_fetch_empties_registry:
  "old_registry \<noteq> [] \<and>
   snapshot no_access old_registry =
     Some (Returns
       ([], Some (Errorf ''failed to read ECR Image Scan Findings infos''
                   (Errorf ''failed to describe image scan findings''
                     (AwsError ''AccessDeniedException'')))))"
  by (simp add: snapshot_def Reset_def old_registry_def getECRImageScanFindings_def
      page_loop.simps no_access_def)

text \<open>
  C3 as amended. When the fetch fails, \<^verbatim>\<open>snapshot\<close> returns an error that wraps the error
  of the fetch, and the registry is empty whatever it held before: the clear is done
  before the fetch.
\<close>

theorem failed_fetch_returns_error_after_reset:
  assumes "getECRImageScanFindings svc = Some (Returns (infos, Some err))"
  shows "snapshot svc reg =
           Some (Returns ([], Some (Errorf ''failed to read ECR Image Scan Findings infos'' err))) \<and>
         Unwrap (Errorf ''failed to read ECR Image Scan Findings infos'' err) = Some err"
  using assms by (simp add: snapshot_def Reset_def)

theorem failed_fetch_returns_error_after_reset_witness:
  "getECRImageScanFindings no_access =
     Some (Returns ([], Some (Errorf ''failed to describe image scan findings''
                              (AwsError ''AccessDeniedException'')))) \<and>
   snapshot no_access old_registry =
     Some (Returns
       ([], Some (Errorf ''failed to read ECR Image Scan Findings infos''
                   (Errorf ''failed to describe image scan findings''
                     (AwsError ''AccessDeniedException'')))))"
proof -
  have f: "getECRImageScanFindings no_access =
     Some (Returns ([], Some (Errorf ''failed to describe image scan findings''
                              (AwsError ''AccessDeniedException''))))"
    by (simp add: getECRImageScanFindings_def page_loop.simps no_access_def)
  from failed_fetch_returns_error_after_reset [OF f, of old_registry] f
  show ?thesis by simp
qed




section \<open>Claims about the interval\<close>

text \<open>
  C9. When the interval variable is unset or empty, the interval is 300 seconds and
  the process starts with it. When it is set and \<^verbatim>\<open>strconv.Atoi\<close> reports an error for
  it, \<^verbatim>\<open>getInterval\<close> returns an error that wraps it and \<^verbatim>\<open>main\<close> ends with
  \<^verbatim>\<open>log.Fatal\<close>. When \<^verbatim>\<open>strconv.Atoi\<close> parses it, the parsed integer is the interval.
\<close>

theorem interval_configuration:
  "(env ''AWS_API_INTERVAL'' = None \<or> env ''AWS_API_INTERVAL'' = Some [] \<longrightarrow>
      getInterval Atoi env = (300, None) \<and>
      main_startup Atoi env = Started (NewTicker (300 * Second))) \<and>
   (env ''AWS_API_INTERVAL'' = Some s \<and> s \<noteq> [] \<and> Atoi s = (n, Some err) \<longrightarrow>
      getInterval Atoi env = (0, Some (Errorf ''failed to read Datadog Config'' err)) \<and>
      main_startup Atoi env = Fatal (Errorf ''failed to read Datadog Config'' err)) \<and>
   (env ''AWS_API_INTERVAL'' = Some s \<and> s \<noteq> [] \<and> Atoi s = (n, None) \<longrightarrow>
      getInterval Atoi env = (n, None) \<and>
      main_startup Atoi env = Started (NewTicker (n * Second)))"
  by (auto simp: getInterval_def main_startup_def Getenv_def)

theorem interval_configuration_witness:
  "getInterval strconv_Atoi no_env = (300, None) \<and>
   getInterval strconv_Atoi (interval_env []) = (300, None) \<and>
   strconv_Atoi ''5m'' = (0, Some (NumError ''invalid syntax'')) \<and>
   main_startup strconv_Atoi (interval_env ''5m'') =
     Fatal (Errorf ''failed to read Datadog Config'' (NumError ''invalid syntax'')) \<and>
   strconv_Atoi ''60'' = (60, None) \<and>
   getInterval strconv_Atoi (interval_env ''60'') = (60, None) \<and>
   main_startup strconv_Atoi (interval_env ''60'') = Started (Returns 60000000000)"
proof -
  have a: "strconv_Atoi ''5m'' = (0, Some (NumError ''invalid syntax''))"
    by (simp add: strconv_Atoi_def digit_of_def)
  have b: "strconv_Atoi ''60'' = (60, None)"
    by (simp add: strconv_Atoi_def digit_of_def)
  have t: "NewTicker (60 * Second) = Returns 60000000000"
    by (simp add: NewTicker_def Second_def)
  from interval_configuration [of no_env strconv_Atoi]
    interval_configuration [of "interval_env []" strconv_Atoi]
    interval_configuration [of "interval_env ''5m''" strconv_Atoi "''5m''" 0
      "NumError ''invalid syntax''"]
    interval_configuration [of "interval_env ''60''" strconv_Atoi "''60''" 60]
    a b t
  show ?thesis by (simp add: no_env_def interval_env_def)
qed

text \<open>
  C10. The claim: every zero or negative interval is accepted by \<^verbatim>\<open>getInterval\<close> and
  fails when the ticker is constructed. The duration of the ticker is the interval
  times 1000000000 in 64 bits, and the product wraps: for the interval -9223372037 it
  is positive, and the ticker is constructed.
\<close>

theorem negative_interval_with_positive_duration:
  "getInterval strconv_Atoi (interval_env ''-9223372037'') = (- 9223372037, None) \<and>
   sint (- 9223372037 :: int64) = - 9223372037 \<and>
   main_startup strconv_Atoi (interval_env ''-9223372037'') =
     Started (Returns 9223372036709551616)"
  by (simp add: main_startup_def getInterval_def Getenv_def interval_env_def
      strconv_Atoi_def digit_of_def NewTicker_def Second_def)

text \<open>
  C10 as amended. \<^verbatim>\<open>getInterval\<close> checks no range: whatever integer \<^verbatim>\<open>strconv.Atoi\<close>
  parses, zero and negative ones too, is returned with no error. Startup then fails at
  the construction of the ticker exactly when the duration, the interval times
  1000000000 in 64 bits, is not positive. That is so for zero and for every negative
  interval down to -9223372036.
\<close>

theorem interval_range_not_checked:
  assumes "env ''AWS_API_INTERVAL'' = Some s" and "s \<noteq> []" and "Atoi s = (n, None)"
  shows "getInterval Atoi env = (n, None) \<and>
         (main_startup Atoi env = Started (Panics ''non-positive interval for NewTicker'')
            \<longleftrightarrow> sint (n * Second) \<le> 0) \<and>
         (0 < sint (n * Second) \<longrightarrow> main_startup Atoi env = Started (Returns (n * Second))) \<and>
         (- 9223372036 \<le> sint n \<and> sint n \<le> 0 \<longrightarrow>
            main_startup Atoi env = Started (Panics ''non-positive interval for NewTicker''))"
proof -
  have g: "getInterval Atoi env = (n, None)"
    using assms by (simp add: getInterval_def Getenv_def)
  then have m: "main_startup Atoi env = Started (NewTicker (n * Second))"
    by (simp add: main_startup_def)
  have "- 9223372036 \<le> sint n \<and> sint n \<le> 0 \<longrightarrow> sint (n * Second) \<le> 0"
    using duration_in_range [of n] by auto
  with g m show ?thesis by (auto simp: NewTicker_def)
qed

theorem interval_range_not_checked_witness:
  "strconv_Atoi ''0'' = (0, None) \<and>
   getInterval strconv_Atoi (interval_env ''0'') = (0, None) \<and>
   main_startup strconv_Atoi (interval_env ''0'') =
     Started (Panics ''non-positive interval for NewTicker'') \<and>
   strconv_Atoi ''-5'' = (- 5, None) \<and>
   getInterval strconv_Atoi (interval_env ''-5'') = (- 5, None) \<and>
   main_startup strconv_Atoi (interval_env ''-5'') =
     Started (Panics ''non-positive interval for NewTicker'')"
proof -
  have a: "strconv_Atoi ''0'' = (0, None)"
    by (simp add: strconv_Atoi_def digit_of_def)
  have b: "strconv_Atoi ''-5'' = (- 5, None)"
    by (simp add: strconv_Atoi_def digit_of_def)
  have e0: "interval_env ''0'' ''AWS_API_INTERVAL'' = Some ''0''"
    by (simp add: interval_env_def)
  have e5: "interval_env ''-5'' ''AWS_API_INTERVAL'' = Some ''-5''"
    by (simp add: interval_env_def)
  have s5: "sint (- 5 :: int64) = - 5" by simp
  from interval_range_not_checked [of "interval_env ''0''" "''0''" strconv_Atoi 0]
    interval_range_not_checked [of "interval_env ''-5''" "''-5''" strconv_Atoi "- 5"]
    e0 e5 a b s5
  show ?thesis by simp
qed

end
